theory Spec2Isabelle
  imports Main
begin

section \<open>The contribution heatmap component (GitHubHeatmap.tsx)\<close>

text \<open>
  The component fetches one year of daily contribution counts for a user, keeps the
  answer in the browser's \<^verbatim>\<open>localStorage\<close> for 24 hours, and lays the days out
  as a grid of weeks. This theory embeds the functions of the component that carry
  logic: \<^verbatim>\<open>getCacheKey\<close>, \<^verbatim>\<open>getCachedData\<close>, \<^verbatim>\<open>setCachedData\<close>,
  \<^verbatim>\<open>fetchContributions\<close>, \<^verbatim>\<open>loadContributions\<close> with the effect that starts it,
  and \<^verbatim>\<open>getWeeks\<close>.

  Conventions of the embedding:
  \<^item> a TypeScript interface is a record; values carry their declared types (JSON text
    of another shape than the declared one is outside the model);
  \<^item> a \<^verbatim>\<open>number\<close> is an \<^typ>\<open>int\<close>: years, counts, levels, HTTP statuses and
    millisecond timestamps are integral and far below \<open>2 ^ 53\<close>, where the
    platform's doubles are exact;
  \<^item> a function that may throw returns a sum, \<open>Inl\<close> the exception; a
    \<^verbatim>\<open>try\<close>/\<^verbatim>\<open>catch\<close> is the case distinction on that sum;
  \<^item> the browser (storage, clock, network log) is an explicit \<open>world\<close> that
    every operation takes and returns; the platform functions the component calls
    (\<^verbatim>\<open>JSON.parse\<close>, \<^verbatim>\<open>JSON.stringify\<close>, \<^verbatim>\<open>fetch\<close>, \<^verbatim>\<open>response.json\<close>)
    are parameters, collected in a \<open>platform\<close> record;
  \<^item> \<^verbatim>\<open>console.log\<close> and \<^verbatim>\<open>console.error\<close> are not modelled; the
    \<^verbatim>\<open>await\<close> of the request is a plain call (one load runs at a time).
\<close>

subsection \<open>Data\<close>

record ContributionDay =
  date :: string
  count :: int
  level :: int

text \<open>
  \<^verbatim>\<open>total\<close> maps a year, printed as a string, to the year's sum. (The field is
  named \<open>total_by_year\<close>: \<open>total\<close> is a constant of HOL's relation library.)
\<close>

record GitHubContributionsData =
  total_by_year :: "string \<rightharpoonup> int"
  contributions :: "ContributionDay list"

subsection \<open>Numbers as text\<close>

text \<open>
  \<^verbatim>\<open>`${year}`\<close> and \<^verbatim>\<open>year.toString()\<close> print an integral number in decimal
  digits, with a minus sign when negative (the platform does so below \<open>10 ^ 21\<close> in
  magnitude).
\<close>

definition digit_char :: "nat \<Rightarrow> char" where
  "digit_char d = char_of (48 + d)"

function digits :: "nat \<Rightarrow> string" where
  "digits n = (if n < 10 then [digit_char n] else digits (n div 10) @ [digit_char (n mod 10)])"
  by pat_completeness auto
termination
  by (relation "measure id") auto

declare digits.simps [simp del]

definition Number_toString :: "int \<Rightarrow> string" where
  "Number_toString i = (if i < 0 then CHR ''-'' # digits (nat (- i)) else digits (nat i))"

subsection \<open>The weekday of January 1\<close>

text \<open>
  \<^verbatim>\<open>new Date(year, 0, 1).getDay()\<close>. ECMAScript reads a year from 0 to 99 as
  \<open>1900 + year\<close>, counts the days from 1 January 1970 (a Thursday, weekday 4) in the
  proleptic Gregorian calendar, and gives an invalid date, whose \<^verbatim>\<open>getDay()\<close> is
  \<^verbatim>\<open>NaN\<close>, beyond 100 000 000 days from that epoch. \<open>None\<close> stands for \<^verbatim>\<open>NaN\<close>.
  (The date is local midnight and the weekday is read in local time as well, so the
  time zone plays no part; a zone whose clocks skip that very midnight is not
  modelled.)
\<close>

definition DayFromYear :: "int \<Rightarrow> int" where
  "DayFromYear y =
     365 * (y - 1970) + (y - 1969) div 4 - (y - 1901) div 100 + (y - 1601) div 400"

definition firstDayOfWeek :: "int \<Rightarrow> nat option" where
  "firstDayOfWeek year =
     (let yr = (if 0 \<le> year \<and> year \<le> 99 then 1900 + year else year);
          day = DayFromYear yr
      in if \<bar>day\<bar> \<le> 100000000 then Some (nat ((day + 4) mod 7)) else None)"

subsection \<open>The grid of weeks: getWeeks\<close>

definition padding :: ContributionDay where
  "padding = \<lparr>date = '''', count = 0, level = 0\<rparr>"

text \<open>
  \<^verbatim>\<open>for (let i = 0; i < firstDayOfWeek; i++) currentWeek.push(padding)\<close>. With
  \<^verbatim>\<open>NaN\<close> as the bound the comparison is false and the loop does not run.
\<close>

function fill_first_week :: "nat \<Rightarrow> nat \<Rightarrow> ContributionDay list \<Rightarrow> ContributionDay list" where
  "fill_first_week i n currentWeek =
     (if i < n then fill_first_week (i + 1) n (currentWeek @ [padding]) else currentWeek)"
  by pat_completeness auto
termination
  by (relation "measure (\<lambda>(i, n, currentWeek). n - i)") auto

declare fill_first_week.simps [simp del]

definition open_first_week :: "int \<Rightarrow> ContributionDay list" where
  "open_first_week year =
     (case firstDayOfWeek year of
        None \<Rightarrow> []
      | Some n \<Rightarrow> fill_first_week 0 n [])"

text \<open>
  The body of \<^verbatim>\<open>contributions.forEach\<close>: push the day, and seal the week when it has
  seven cells. The state is the pair of \<^verbatim>\<open>weeks\<close> and \<^verbatim>\<open>currentWeek\<close>.
\<close>

definition push_day ::
  "ContributionDay \<Rightarrow> ContributionDay list list \<times> ContributionDay list
     \<Rightarrow> ContributionDay list list \<times> ContributionDay list" where
  "push_day day s =
     (let weeks = fst s; currentWeek = snd s @ [day]
      in if length currentWeek = 7 then (weeks @ [currentWeek], []) else (weeks, currentWeek))"

text \<open>\<^verbatim>\<open>while (currentWeek.length < 7) currentWeek.push(padding)\<close>\<close>

function fill_last_week :: "ContributionDay list \<Rightarrow> ContributionDay list" where
  "fill_last_week currentWeek =
     (if length currentWeek < 7 then fill_last_week (currentWeek @ [padding]) else currentWeek)"
  by pat_completeness auto
termination
  by (relation "measure (\<lambda>currentWeek. 7 - length currentWeek)") auto

declare fill_last_week.simps [simp del]

definition getWeeks :: "ContributionDay list \<Rightarrow> int \<Rightarrow> ContributionDay list list" where
  "getWeeks days year =
     (if length days = 0 then []
      else
        let s = fold push_day days ([], open_first_week year);
            weeks = fst s; currentWeek = snd s
        in if length currentWeek > 0 then weeks @ [fill_last_week currentWeek] else weeks)"

text \<open>
  A cell with the empty date is a padding cell (the renderer shows a tooltip only for
  a cell whose date is not empty). The trailing padding of a week is the run of such
  cells at its end.
\<close>

definition is_padding :: "ContributionDay \<Rightarrow> bool" where
  "is_padding c = (date c = '''')"

definition trailing_padding :: "ContributionDay list \<Rightarrow> nat" where
  "trailing_padding week = length (takeWhile is_padding (rev week))"

subsection \<open>The browser: storage, clock, network\<close>

datatype exn = SyntaxError | TypeError | DOMException string | Error string

text \<open>
  \<^verbatim>\<open>localStorage\<close> holds strings under string keys. Two flags stand for the faults
  of the storage layer: \<open>denied\<close>, the browser refuses access to the storage and
  every call raises; \<open>full\<close>, the quota is used up and \<^verbatim>\<open>setItem\<close> raises.
\<close>

record storage =
  items :: "string \<rightharpoonup> string"
  denied :: bool
  full :: bool

text \<open>The calls that leave the component, in the order they are made.\<close>

datatype event =
    GetItem string
  | SetItem string string
  | RemoveItem string
  | Fetch string

record world =
  localStorage :: storage
  clock :: int
  trace :: "event list"

definition getItem :: "string \<Rightarrow> world \<Rightarrow> (exn + string option) \<times> world" where
  "getItem key w =
     (let w1 = w\<lparr>trace := trace w @ [GetItem key]\<rparr>
      in if denied (localStorage w) then (Inl (DOMException ''SecurityError''), w1)
         else (Inr (items (localStorage w) key), w1))"

definition setItem :: "string \<Rightarrow> string \<Rightarrow> world \<Rightarrow> (exn + unit) \<times> world" where
  "setItem key v w =
     (let w1 = w\<lparr>trace := trace w @ [SetItem key v]\<rparr>
      in if denied (localStorage w) then (Inl (DOMException ''SecurityError''), w1)
         else if full (localStorage w) then (Inl (DOMException ''QuotaExceededError''), w1)
         else (Inr (),
               w1\<lparr>localStorage := (localStorage w)\<lparr>items := (items (localStorage w))(key \<mapsto> v)\<rparr>\<rparr>))"

definition removeItem :: "string \<Rightarrow> world \<Rightarrow> (exn + unit) \<times> world" where
  "removeItem key w =
     (let w1 = w\<lparr>trace := trace w @ [RemoveItem key]\<rparr>
      in if denied (localStorage w) then (Inl (DOMException ''SecurityError''), w1)
         else (Inr (),
               w1\<lparr>localStorage := (localStorage w)\<lparr>items := (items (localStorage w))(key := None)\<rparr>\<rparr>))"

text \<open>
  What is stored under a cache key: \<^verbatim>\<open>{ data, timestamp }\<close>, the timestamp the
  value of \<^verbatim>\<open>Date.now()\<close> at the write.
\<close>

record cache_entry =
  data :: GitHubContributionsData
  timestamp :: int

text \<open>A response has a status and a body; \<^verbatim>\<open>response.ok\<close> is a status from 200 to 299.\<close>

record response =
  status :: int
  body :: string

definition ok :: "response \<Rightarrow> bool" where
  "ok r = (200 \<le> status r \<and> status r \<le> 299)"

text \<open>
  The platform functions, as parameters. \<open>JSON_parse\<close> is \<^verbatim>\<open>JSON.parse\<close> on a
  stored text, read at the type of a cache entry; it raises on text that is not JSON
  (and so does the destructuring of what it returns, when that is \<^verbatim>\<open>null\<close>).
  \<open>fetch\<close> gives, for a URL, how the request settles (a rejection or a response)
  and the milliseconds that pass until then. \<open>response_json\<close> is
  \<^verbatim>\<open>response.json()\<close>, which raises on a body that is not JSON.
\<close>

record platform =
  JSON_parse :: "string \<Rightarrow> exn + cache_entry"
  JSON_stringify :: "cache_entry \<Rightarrow> string"
  fetch :: "string \<Rightarrow> (exn + response) \<times> int"
  response_json :: "response \<Rightarrow> exn + GitHubContributionsData"

definition await_fetch :: "platform \<Rightarrow> string \<Rightarrow> world \<Rightarrow> (exn + response) \<times> world" where
  "await_fetch P url w =
     (fst (fetch P url),
      w\<lparr>trace := trace w @ [Fetch url], clock := clock w + snd (fetch P url)\<rparr>)"

subsection \<open>The cache: getCacheKey, getCachedData, setCachedData\<close>

definition getCacheKey :: "string \<Rightarrow> int \<Rightarrow> string" where
  "getCacheKey username year =
     ''github_contributions_'' @ username @ ''_'' @ Number_toString year"

definition CACHE_EXPIRY :: int where
  "CACHE_EXPIRY = 24 * 60 * 60 * 1000"

text \<open>
  The \<^verbatim>\<open>try\<close> block of \<^verbatim>\<open>getCachedData\<close>: \<open>Inl\<close> when a call in it raises,
  \<open>Inr (Some d)\<close> at \<^verbatim>\<open>return data\<close>, \<open>Inr None\<close> when control leaves the block
  at its end. \<^verbatim>\<open>if (cached)\<close> is false for \<^verbatim>\<open>null\<close> and for the empty string.
\<close>

definition getCachedData_try ::
  "platform \<Rightarrow> string \<Rightarrow> int \<Rightarrow> world \<Rightarrow> (exn + GitHubContributionsData option) \<times> world" where
  "getCachedData_try P username year w =
     (let cacheKey = getCacheKey username year
      in case getItem cacheKey w of
           (Inl e, w1) \<Rightarrow> (Inl e, w1)
         | (Inr None, w1) \<Rightarrow> (Inr None, w1)
         | (Inr (Some cached), w1) \<Rightarrow>
             if cached = '''' then (Inr None, w1)
             else
               (case JSON_parse P cached of
                  Inl e \<Rightarrow> (Inl e, w1)
                | Inr entry \<Rightarrow>
                    let now = clock w1
                    in if now - timestamp entry < CACHE_EXPIRY then (Inr (Some (data entry)), w1)
                       else
                         (case removeItem cacheKey w1 of
                            (Inl e, w2) \<Rightarrow> (Inl e, w2)
                          | (Inr u, w2) \<Rightarrow> (Inr None, w2))))"

text \<open>
  The whole function: the \<^verbatim>\<open>catch\<close> logs the exception, and control reaches
  \<^verbatim>\<open>return null\<close>.
\<close>

definition getCachedData ::
  "platform \<Rightarrow> string \<Rightarrow> int \<Rightarrow> world \<Rightarrow> (exn + GitHubContributionsData option) \<times> world" where
  "getCachedData P username year w =
     (case getCachedData_try P username year w of
        (Inl e, w1) \<Rightarrow> (Inr None, w1)
      | (Inr (Some d), w1) \<Rightarrow> (Inr (Some d), w1)
      | (Inr None, w1) \<Rightarrow> (Inr None, w1))"

definition setCachedData ::
  "platform \<Rightarrow> string \<Rightarrow> int \<Rightarrow> GitHubContributionsData \<Rightarrow> world \<Rightarrow> (exn + unit) \<times> world" where
  "setCachedData P username year d w =
     (let cacheKey = getCacheKey username year;
          cacheData = \<lparr>data = d, timestamp = clock w\<rparr>
      in case setItem cacheKey (JSON_stringify P cacheData) w of
           (Inl e, w1) \<Rightarrow> (Inr (), w1)
         | (Inr u, w1) \<Rightarrow> (Inr (), w1))"

subsection \<open>The request: fetchContributions\<close>

definition request_url :: "string \<Rightarrow> int \<Rightarrow> string" where
  "request_url username year =
     ''https://github-contributions-api.jogruber.de/v4/'' @ username @ ''?y='' @ Number_toString year"

text \<open>The \<^verbatim>\<open>catch\<close> of this function logs the exception and throws it again.\<close>

definition fetchContributions ::
  "platform \<Rightarrow> string \<Rightarrow> int \<Rightarrow> world \<Rightarrow> (exn + GitHubContributionsData) \<times> world" where
  "fetchContributions P username year w =
     (case await_fetch P (request_url username year) w of
        (Inl e, w1) \<Rightarrow> (Inl e, w1)
      | (Inr response, w1) \<Rightarrow>
          if \<not> ok response
          then (Inl (Error (''HTTP error! status: '' @ Number_toString (status response))), w1)
          else
            (case response_json P response of
               Inl e \<Rightarrow> (Inl e, w1)
             | Inr d \<Rightarrow>
                 (case setCachedData P username year d w1 of
                    (Inl e, w2) \<Rightarrow> (Inl e, w2)
                  | (Inr u, w2) \<Rightarrow> (Inr d, w2))))"

subsection \<open>The component: state, loadContributions, the effect, the view\<close>

record component =
  s_contributions :: "ContributionDay list"
  s_loading :: bool
  s_totalContributions :: int
  s_error :: "string option"

text \<open>The four \<^verbatim>\<open>useState\<close> initial values.\<close>

definition initial :: component where
  "initial = \<lparr>s_contributions = [], s_loading = True, s_totalContributions = 0, s_error = None\<rparr>"

text \<open>The message of \<^verbatim>\<open>setError\<close>, a Chinese sentence, in its UTF-8 bytes.\<close>

definition LOAD_FAILED :: string where
  "LOAD_FAILED =
     [CHR 0xE8, CHR 0x8E, CHR 0xB7, CHR 0xE5, CHR 0x8F, CHR 0x96, CHR ''G'',
      CHR ''i'', CHR ''t'', CHR ''H'', CHR ''u'', CHR ''b'', CHR 0xE6, CHR 0x95,
      CHR 0xB0, CHR 0xE6, CHR 0x8D, CHR 0xAE, CHR 0xE5, CHR 0xA4, CHR 0xB1, CHR 0xE8,
      CHR 0xB4, CHR 0xA5, CHR 0xEF, CHR 0xBC, CHR 0x8C, CHR 0xE8, CHR 0xAF, CHR 0xB7,
      CHR 0xE6, CHR 0xA3, CHR 0x80, CHR 0xE6, CHR 0x9F, CHR 0xA5, CHR 0xE7, CHR 0x94,
      CHR 0xA8, CHR 0xE6, CHR 0x88, CHR 0xB7, CHR 0xE5, CHR 0x90, CHR 0x8D, CHR 0xE6,
      CHR 0x88, CHR 0x96, CHR 0xE7, CHR 0xBD, CHR 0x91, CHR 0xE7, CHR 0xBB, CHR 0x9C,
      CHR 0xE8, CHR 0xBF, CHR 0x9E, CHR 0xE6, CHR 0x8E, CHR 0xA5]"

text \<open>\<^verbatim>\<open>data.total[year.toString()] || 0\<close>: a missing year and a zero both give 0.\<close>

definition total_or_0 :: "GitHubContributionsData \<Rightarrow> int \<Rightarrow> int" where
  "total_or_0 d year =
     (case total_by_year d (Number_toString year) of
        None \<Rightarrow> 0
      | Some n \<Rightarrow> if n = 0 then 0 else n)"

text \<open>The two branches set the same state from the data they hold.\<close>

definition show_data :: "GitHubContributionsData \<Rightarrow> int \<Rightarrow> component \<Rightarrow> component" where
  "show_data d year c =
     c\<lparr>s_contributions := contributions d, s_totalContributions := total_or_0 d year\<rparr>"

text \<open>The \<^verbatim>\<open>catch\<close> block of \<^verbatim>\<open>loadContributions\<close>.\<close>

definition show_failure :: "component \<Rightarrow> component" where
  "show_failure c =
     c\<lparr>s_error := Some LOAD_FAILED, s_contributions := [], s_totalContributions := 0\<rparr>"

text \<open>
  \<^verbatim>\<open>loadContributions\<close>, from \<^verbatim>\<open>setLoading(true)\<close> to the \<^verbatim>\<open>finally\<close> block,
  which runs on every path.
\<close>

definition loadContributions ::
  "platform \<Rightarrow> string \<Rightarrow> int \<Rightarrow> component \<times> world \<Rightarrow> component \<times> world" where
  "loadContributions P username year s =
     (let c1 = (fst s)\<lparr>s_loading := True, s_error := None\<rparr>;
          r = (case getCachedData P username year (snd s) of
                 (Inl e, w1) \<Rightarrow> (show_failure c1, w1)
               | (Inr (Some cachedData), w1) \<Rightarrow> (show_data cachedData year c1, w1)
               | (Inr None, w1) \<Rightarrow>
                   (case fetchContributions P username year w1 of
                      (Inl e, w2) \<Rightarrow> (show_failure c1, w2)
                    | (Inr d, w2) \<Rightarrow> (show_data d year c1, w2)))
      in ((fst r)\<lparr>s_loading := False\<rparr>, snd r))"

text \<open>The effect, run after the first render and whenever a property changes.\<close>

definition useEffect ::
  "platform \<Rightarrow> string \<Rightarrow> int \<Rightarrow> component \<times> world \<Rightarrow> component \<times> world" where
  "useEffect P username year s =
     (if username \<noteq> '''' then loadContributions P username year s else s)"

text \<open>
  What the component returns: the loading notice, the failure notice (for an error
  message that is not empty), or the heatmap of the weeks with the total.
\<close>

datatype view =
    Loading
  | Failed string
  | Heatmap "ContributionDay list list" int

definition render :: "component \<Rightarrow> int \<Rightarrow> view" where
  "render c year =
     (if s_loading c then Loading
      else
        (case s_error c of
           Some msg \<Rightarrow>
             if msg \<noteq> '''' then Failed msg
             else Heatmap (getWeeks (s_contributions c) year) (s_totalContributions c)
         | None \<Rightarrow> Heatmap (getWeeks (s_contributions c) year) (s_totalContributions c)))"

subsection \<open>Example values\<close>

text \<open>
  One payload, and a platform whose JSON functions know one text, the serialization of
  one entry, and whose network answers every request with status 404. \<open>browser m t\<close>
  is a browser with the stored items \<open>m\<close> at the time \<open>t\<close>, its storage
  in working order.
\<close>

definition alice_2024 :: GitHubContributionsData where
  "alice_2024 =
     \<lparr>total_by_year = [''2024'' \<mapsto> 3],
      contributions = [\<lparr>date = ''2024-01-01'', count = 3, level = 1\<rparr>]\<rparr>"

definition table_platform :: "cache_entry \<Rightarrow> platform" where
  "table_platform entry =
     \<lparr>JSON_parse = (\<lambda>s. if s = ''entry'' then Inr entry else Inl SyntaxError),
      JSON_stringify = (\<lambda>e. ''entry''),
      fetch = (\<lambda>url. (Inr \<lparr>status = 404, body = ''Not Found''\<rparr>, 120)),
      response_json = (\<lambda>r. Inl SyntaxError)\<rparr>"

definition browser :: "(string \<rightharpoonup> string) \<Rightarrow> int \<Rightarrow> world" where
  "browser m t =
     \<lparr>localStorage = \<lparr>items = m, denied = False, full = False\<rparr>, clock = t, trace = []\<rparr>"

subsection \<open>Properties of the grid\<close>

lemma fill_first_week_eq:
  "fill_first_week i n cur = cur @ replicate (n - i) padding"
proof (induction i n cur rule: fill_first_week.induct)
  case (1 i n cur)
  show ?case
  proof (cases "i < n")
    case True
    then have "n - i = Suc (n - (i + 1))" by simp
    with True "1" show ?thesis
      by (simp add: fill_first_week.simps [of i] replicate_append_same del: replicate_Suc)
        (simp add: replicate_app_Cons_same)
  next
    case False
    then show ?thesis by (simp add: fill_first_week.simps [of i])
  qed
qed

lemma fill_last_week_eq:
  "fill_last_week cur = cur @ replicate (7 - length cur) padding"
proof (induction cur rule: fill_last_week.induct)
  case (1 cur)
  show ?case
  proof (cases "length cur < 7")
    case True
    then have "7 - length cur = Suc (7 - length (cur @ [padding]))" by simp
    with True "1" show ?thesis
      by (simp add: fill_last_week.simps [of cur] del: replicate_Suc)
        (simp add: replicate_app_Cons_same)
  next
    case False
    then show ?thesis by (simp add: fill_last_week.simps [of cur])
  qed
qed

lemma firstDayOfWeek_less: "firstDayOfWeek year = Some w \<Longrightarrow> w < 7"
  by (auto simp: firstDayOfWeek_def Let_def split: if_splits)

lemma open_first_week_eq:
  "open_first_week year = replicate (length (open_first_week year)) padding"
  by (simp add: open_first_week_def fill_first_week_eq split: option.split)

lemma open_first_week_Some:
  "firstDayOfWeek year = Some w \<Longrightarrow> open_first_week year = replicate w padding"
  by (simp add: open_first_week_def fill_first_week_eq)

lemma open_first_week_length: "length (open_first_week year) < 7"
  by (auto simp: open_first_week_def fill_first_week_eq dest: firstDayOfWeek_less split: option.split)

lemma fold_push_day:
  assumes "\<forall>wk \<in> set ws. length wk = 7" and "length cur < 7"
  shows "(\<forall>wk \<in> set (fst (fold push_day days (ws, cur))). length wk = 7)
       \<and> length (snd (fold push_day days (ws, cur))) < 7
       \<and> concat (fst (fold push_day days (ws, cur))) @ snd (fold push_day days (ws, cur))
           = concat ws @ cur @ days"
  using assms
proof (induction days arbitrary: ws cur)
  case Nil
  then show ?case by simp
next
  case (Cons d days)
  show ?case
  proof (cases "length (cur @ [d]) = 7")
    case True
    then have step: "push_day d (ws, cur) = (ws @ [cur @ [d]], [])"
      by (simp add: push_day_def)
    have "\<forall>wk \<in> set (ws @ [cur @ [d]]). length wk = 7"
      using Cons.prems(1) True by auto
    from Cons.IH [OF this, of "[]"] show ?thesis
      by (simp add: step)
  next
    case False
    then have step: "push_day d (ws, cur) = (ws, cur @ [d])"
      by (simp add: push_day_def)
    have "length (cur @ [d]) < 7"
      using Cons.prems(2) False by simp
    from Cons.IH [OF Cons.prems(1) this] show ?thesis
      by (simp add: step)
  qed
qed

lemma length_concat_weeks:
  "\<forall>wk \<in> set ws. length wk = 7 \<Longrightarrow> length (concat ws) = 7 * length ws"
  by (induction ws) auto

text \<open>The state of the loop after all days, from the empty list of weeks.\<close>

lemma loop_result:
  fixes days year
  defines "s \<equiv> fold push_day days ([], open_first_week year)"
  shows "(\<forall>wk \<in> set (fst s). length wk = 7)"
    and "length (snd s) = (length (open_first_week year) + length days) mod 7"
    and "concat (fst s) @ snd s = open_first_week year @ days"
proof -
  have inv: "(\<forall>wk \<in> set (fst s). length wk = 7) \<and> length (snd s) < 7
      \<and> concat (fst s) @ snd s = concat [] @ open_first_week year @ days"
    unfolding s_def by (rule fold_push_day) (simp_all add: open_first_week_length)
  then show all7: "\<forall>wk \<in> set (fst s). length wk = 7"
    and cat: "concat (fst s) @ snd s = open_first_week year @ days"
    by simp_all
  from cat have "length (concat (fst s)) + length (snd s)
      = length (open_first_week year) + length days"
    by (metis length_append)
  then have "7 * length (fst s) + length (snd s) = length (open_first_week year) + length days"
    by (simp add: length_concat_weeks [OF all7])
  then have "(length (open_first_week year) + length days) mod 7
      = (7 * length (fst s) + length (snd s)) mod 7"
    by simp
  also have "\<dots> = length (snd s) mod 7"
    by (rule mod_mult_self4)
  also from inv have "\<dots> = length (snd s)"
    by simp
  finally show "length (snd s) = (length (open_first_week year) + length days) mod 7"
    by simp
qed

lemma getWeeks_unfold:
  "days \<noteq> [] \<Longrightarrow> getWeeks days year =
     (let s = fold push_day days ([], open_first_week year)
      in if snd s \<noteq> [] then fst s @ [snd s @ replicate (7 - length (snd s)) padding] else fst s)"
  by (simp add: getWeeks_def Let_def fill_last_week_eq)

lemma getWeeks_length7: "\<forall>week \<in> set (getWeeks days year). length week = 7"
proof (cases "days = []")
  case True
  then show ?thesis by (simp add: getWeeks_def)
next
  case False
  let ?s = "fold push_day days ([], open_first_week year)"
  have "length (snd ?s) < 7"
    by (simp add: loop_result(2))
  then show ?thesis
    using loop_result(1) [of days year] False
    by (auto simp: getWeeks_unfold Let_def)
qed

lemma getWeeks_concat:
  assumes "days \<noteq> []"
  shows "concat (getWeeks days year) =
     open_first_week year @ days
       @ replicate ((7 - (length (open_first_week year) + length days) mod 7) mod 7) padding"
proof -
  let ?s = "fold push_day days ([], open_first_week year)"
  let ?r = "(length (open_first_week year) + length days) mod 7"
  have len: "length (snd ?s) = ?r" by (rule loop_result(2))
  have cat: "concat (fst ?s) @ snd ?s = open_first_week year @ days" by (rule loop_result(3))
  show ?thesis
  proof (cases "snd ?s = []")
    case True
    with len have "?r = 0" by simp
    with True cat assms show ?thesis
      by (simp add: getWeeks_unfold Let_def)
  next
    case False
    with len have "0 < ?r" by (metis length_greater_0_conv)
    moreover have "?r < 7" by simp
    ultimately have "(7 - ?r) mod 7 = 7 - ?r" by simp
    moreover have "concat (fst ?s) @ snd ?s @ replicate (7 - ?r) padding
        = open_first_week year @ days @ replicate (7 - ?r) padding"
      using cat by (metis append_assoc)
    ultimately show ?thesis
      using False assms len by (simp add: getWeeks_unfold Let_def)
  qed
qed

lemma getWeeks_nonempty: "days \<noteq> [] \<Longrightarrow> getWeeks days year \<noteq> []"
  using getWeeks_concat [of days year] by auto

lemma hd_weeks:
  "ws \<noteq> [] \<Longrightarrow> \<forall>wk \<in> set ws. length wk = 7 \<Longrightarrow> hd ws = take 7 (concat ws)"
  by (cases ws) auto

lemma last_weeks:
  "ws \<noteq> [] \<Longrightarrow> \<forall>wk \<in> set ws. length wk = 7 \<Longrightarrow> last (last ws) = last (concat ws)"
proof (induction ws)
  case Nil
  then show ?case by simp
next
  case (Cons a ws)
  show ?case
  proof (cases "ws = []")
    case True
    then show ?thesis by simp
  next
    case False
    then obtain wk where "wk \<in> set ws" by (cases ws) auto
    with Cons.prems have "length wk = 7" by simp
    with \<open>wk \<in> set ws\<close> have "concat ws \<noteq> []" by force
    with False Cons show ?thesis by simp
  qed
qed

lemma trailing_padding_append:
  assumes "xs \<noteq> []" and "\<not> is_padding (last xs)"
  shows "trailing_padding (xs @ replicate k padding) = k"
proof -
  have pad: "is_padding padding"
    by (simp add: is_padding_def padding_def)
  from assms obtain y ys where r: "rev xs = y # ys" and y: "\<not> is_padding y"
    by (cases "rev xs") (auto simp: last_rev [symmetric] simp del: last_rev)
  have "takeWhile is_padding (replicate k padding @ rev xs)
      = replicate k padding @ takeWhile is_padding (rev xs)"
    by (rule takeWhile_append2) (simp add: pad)
  with r y show ?thesis
    by (simp add: trailing_padding_def)
qed

lemma cells_prefix:
  assumes "w < n" and "ds \<noteq> []"
  shows "take w (take n (replicate w p @ ds @ rest)) = replicate w p"
    and "take n (replicate w p @ ds @ rest) ! w = hd ds"
  using assms by (simp_all add: min_def nth_append hd_conv_nth)

text \<open>
  Claim C7. For a day sequence that is not empty and a year whose January 1 falls on
  weekday \<open>w\<close> (what \<^verbatim>\<open>new Date(year, 0, 1).getDay()\<close> returns), the grid has a
  first week, its first \<open>w\<close> cells are the padding cell
  \<^verbatim>\<open>{date: "", count: 0, level: 0}\<close>, and its cell at slot \<open>w\<close> is the first day of
  the input.
\<close>

theorem getWeeks_leading_padding:
  assumes "days \<noteq> []" and "firstDayOfWeek year = Some w"
  shows "getWeeks days year \<noteq> []
       \<and> w < length (hd (getWeeks days year))
       \<and> take w (hd (getWeeks days year)) = replicate w \<lparr>date = '''', count = 0, level = 0\<rparr>
       \<and> hd (getWeeks days year) ! w = hd days"
proof -
  have ne: "getWeeks days year \<noteq> []"
    using assms(1) by (rule getWeeks_nonempty)
  have w: "w < 7"
    using assms(2) by (rule firstDayOfWeek_less)
  from getWeeks_concat [OF assms(1), of year]
  obtain rest where cat: "concat (getWeeks days year) = replicate w padding @ days @ rest"
    unfolding open_first_week_Some [OF assms(2)] by blast
  have hd_eq: "hd (getWeeks days year) = take 7 (replicate w padding @ days @ rest)"
    using hd_weeks [OF ne getWeeks_length7] by (simp only: cat)
  have first: "take w (hd (getWeeks days year)) = replicate w padding"
    unfolding hd_eq using w assms(1) by (rule cells_prefix(1))
  have slot: "hd (getWeeks days year) ! w = hd days"
    unfolding hd_eq using w assms(1) by (rule cells_prefix(2))
  have "length (hd (getWeeks days year)) = 7"
    using hd_in_set [OF ne] getWeeks_length7 [of days year] by blast
  with ne w first slot show ?thesis
    by (simp add: padding_def)
qed

theorem getWeeks_leading_padding_witness:
  "firstDayOfWeek 2025 = Some 3
   \<and> take 3 (hd (getWeeks [\<lparr>date = ''2025-01-01'', count = 2, level = 1\<rparr>,
                              \<lparr>date = ''2025-01-02'', count = 0, level = 0\<rparr>] 2025))
       = replicate 3 \<lparr>date = '''', count = 0, level = 0\<rparr>
   \<and> hd (getWeeks [\<lparr>date = ''2025-01-01'', count = 2, level = 1\<rparr>,
                     \<lparr>date = ''2025-01-02'', count = 0, level = 0\<rparr>] 2025) ! 3
       = \<lparr>date = ''2025-01-01'', count = 2, level = 1\<rparr>"
proof -
  have w: "firstDayOfWeek 2025 = Some 3"
    by (simp add: firstDayOfWeek_def DayFromYear_def)
  have ne: "[\<lparr>date = ''2025-01-01'', count = 2, level = 1\<rparr>,
             \<lparr>date = ''2025-01-02'', count = 0, level = 0\<rparr>] \<noteq> []"
    by simp
  from getWeeks_leading_padding [OF ne w] w show ?thesis
    by simp
qed

text \<open>
  Claim C1, as amended. The count that decides the trailing padding is the number of
  cells before it, leading padding included: for a day sequence that is not empty and
  ends in a real day, and a year whose January 1 falls on weekday \<open>w\<close>, let
  \<open>r = (w + length days) mod 7\<close>. If \<open>r > 0\<close> the last week ends in exactly
  \<open>7 - r\<close> padding cells; if \<open>r = 0\<close> it ends in none.
\<close>

theorem getWeeks_trailing_padding:
  assumes "days \<noteq> []" and "firstDayOfWeek year = Some w" and "\<not> is_padding (last days)"
  shows "trailing_padding (last (getWeeks days year)) =
     (if 0 < (w + length days) mod 7 then 7 - (w + length days) mod 7 else 0)"
proof -
  let ?s = "fold push_day days ([], open_first_week year)"
  let ?r = "(w + length days) mod 7"
  have w: "length (open_first_week year) = w"
    by (simp add: open_first_week_Some [OF assms(2)])
  have len: "length (snd ?s) = ?r"
    using loop_result(2) [of days year] by (simp add: w)
  have cat: "concat (fst ?s) @ snd ?s = open_first_week year @ days"
    by (rule loop_result(3))
  show ?thesis
  proof (cases "snd ?s = []")
    case True
    with len have r: "?r = 0" by simp
    from True cat assms(1) have c: "concat (fst ?s) = open_first_week year @ days"
      and ne: "fst ?s \<noteq> []"
      by auto
    have all7: "\<forall>wk \<in> set (fst ?s). length wk = 7"
      by (rule loop_result(1))
    have "last (last (fst ?s)) = last (concat (fst ?s))"
      using ne all7 by (rule last_weeks)
    then have "\<not> is_padding (last (last (fst ?s)))"
      using assms(1,3) by (simp add: c)
    moreover have "last (fst ?s) \<noteq> []"
      using last_in_set [OF ne] all7 by fastforce
    ultimately have "trailing_padding (last (fst ?s) @ replicate 0 padding) = 0"
      by (intro trailing_padding_append)
    with True r assms(1) show ?thesis
      by (simp add: getWeeks_unfold Let_def)
  next
    case False
    with len have r: "0 < ?r" by (metis length_greater_0_conv)
    have "last (snd ?s) = last (concat (fst ?s) @ snd ?s)"
      using False by simp
    then have "\<not> is_padding (last (snd ?s))"
      using assms(1,3) by (simp add: cat)
    with False have "trailing_padding (snd ?s @ replicate (7 - ?r) padding) = 7 - ?r"
      by (intro trailing_padding_append)
    with False r len assms(1) show ?thesis
      by (simp add: getWeeks_unfold Let_def)
  qed
qed

theorem getWeeks_trailing_padding_witness:
  "firstDayOfWeek 2025 = Some 3
   \<and> trailing_padding (last (getWeeks [\<lparr>date = ''2025-01-01'', count = 2, level = 1\<rparr>,
                                        \<lparr>date = ''2025-01-02'', count = 0, level = 0\<rparr>] 2025)) = 2"
proof -
  have w: "firstDayOfWeek 2025 = Some 3"
    by (simp add: firstDayOfWeek_def DayFromYear_def)
  have ne: "[\<lparr>date = ''2025-01-01'', count = 2, level = 1\<rparr>,
             \<lparr>date = ''2025-01-02'', count = 0, level = 0\<rparr>] \<noteq> []"
    by simp
  have real: "\<not> is_padding (last [\<lparr>date = ''2025-01-01'', count = 2, level = 1\<rparr>,
             \<lparr>date = ''2025-01-02'', count = 0, level = 0\<rparr>])"
    by (simp add: is_padding_def)
  from getWeeks_trailing_padding [OF ne w real] w show ?thesis
    by simp
qed

text \<open>
  The claim as stated takes \<open>r\<close> from the number of days alone. In 2024, which
  starts on a Monday, one day (\<open>r = 1\<close>) gives 5 trailing padding cells, not 6, and
  seven days (\<open>r = 0\<close>) give a last week of one day and 6 padding cells.
\<close>

theorem getWeeks_trailing_padding_counterexample:
  "firstDayOfWeek 2024 = Some 1
   \<and> length [\<lparr>date = ''2024-01-01'', count = 3, level = 1\<rparr>] mod 7 = 1
   \<and> trailing_padding (last (getWeeks [\<lparr>date = ''2024-01-01'', count = 3, level = 1\<rparr>] 2024)) = 5
   \<and> trailing_padding (last (getWeeks [\<lparr>date = ''2024-01-01'', count = 3, level = 1\<rparr>] 2024))
       \<noteq> 7 - length [\<lparr>date = ''2024-01-01'', count = 3, level = 1\<rparr>] mod 7
   \<and> length (replicate 7 \<lparr>date = ''2024-01-01'', count = 3, level = 1\<rparr>) mod 7 = 0
   \<and> trailing_padding
         (last (getWeeks (replicate 7 \<lparr>date = ''2024-01-01'', count = 3, level = 1\<rparr>) 2024)) = 6"
  by code_simp

text \<open>
  Claim C6. For every day sequence and year, every week of the grid has exactly seven
  cells; the cells of the grid are the input days in their order, between a run of
  padding cells before them and a run of padding cells after them; and the padding
  cell carries the empty date.
\<close>

theorem getWeeks_invariant:
  "(\<forall>week \<in> set (getWeeks days year). length week = 7)
   \<and> (\<exists>a b. concat (getWeeks days year) = replicate a padding @ days @ replicate b padding)
   \<and> date padding = ''''"
proof -
  have "\<exists>a b. concat (getWeeks days year) = replicate a padding @ days @ replicate b padding"
  proof (cases "days = []")
    case True
    then have "concat (getWeeks days year) = replicate 0 padding @ days @ replicate 0 padding"
      by (simp add: getWeeks_def)
    then show ?thesis by blast
  next
    case False
    let ?a = "length (open_first_week year)"
    let ?b = "(7 - (?a + length days) mod 7) mod 7"
    have "concat (getWeeks days year) = replicate ?a padding @ days @ replicate ?b padding"
      by (subst open_first_week_eq [symmetric]) (rule getWeeks_concat [OF False])
    then show ?thesis by blast
  qed
  then show ?thesis
    using getWeeks_length7 by (simp add: padding_def)
qed

theorem getWeeks_invariant_witness:
  "list_all (\<lambda>week. length week = 7)
     (getWeeks [\<lparr>date = ''2025-01-01'', count = 2, level = 1\<rparr>,
                \<lparr>date = ''2025-01-02'', count = 0, level = 0\<rparr>] 2025)
   \<and> getWeeks [\<lparr>date = ''2025-01-01'', count = 2, level = 1\<rparr>,
                \<lparr>date = ''2025-01-02'', count = 0, level = 0\<rparr>] 2025
     = [[padding, padding, padding,
         \<lparr>date = ''2025-01-01'', count = 2, level = 1\<rparr>,
         \<lparr>date = ''2025-01-02'', count = 0, level = 0\<rparr>, padding, padding]]"
proof -
  have "getWeeks [\<lparr>date = ''2025-01-01'', count = 2, level = 1\<rparr>,
                \<lparr>date = ''2025-01-02'', count = 0, level = 0\<rparr>] 2025
     = [[padding, padding, padding,
         \<lparr>date = ''2025-01-01'', count = 2, level = 1\<rparr>,
         \<lparr>date = ''2025-01-02'', count = 0, level = 0\<rparr>, padding, padding]]"
    by code_simp
  with getWeeks_invariant [of "[\<lparr>date = ''2025-01-01'', count = 2, level = 1\<rparr>,
                \<lparr>date = ''2025-01-02'', count = 0, level = 0\<rparr>]" 2025]
  show ?thesis
    by (simp add: list_all_iff)
qed

subsection \<open>Properties of the cache\<close>

lemma key_alice: "getCacheKey ''alice'' 2024 = ''github_contributions_alice_2024''"
  by code_simp

lemma table_parse:
  "JSON_parse (table_platform entry) ''entry'' = Inr entry"
  "JSON_stringify (table_platform entry) e = ''entry''"
  by (simp_all add: table_platform_def)

lemma getCachedData_try_trace:
  "trace (snd (getCachedData_try P username year w)) = trace w @ [GetItem (getCacheKey username year)]
   \<or> trace (snd (getCachedData_try P username year w))
       = trace w @ [GetItem (getCacheKey username year), RemoveItem (getCacheKey username year)]"
  by (simp add: getCachedData_try_def getItem_def removeItem_def Let_def
      split: option.split sum.split)

lemma snd_getCachedData:
  "snd (getCachedData P username year w) = snd (getCachedData_try P username year w)"
  by (simp add: getCachedData_def split: prod.split sum.split option.split)

text \<open>
  What \<^verbatim>\<open>getCachedData\<close> does with an entry it can read and parse: it returns the
  data while the entry is younger than \<open>CACHE_EXPIRY\<close>, and removes the entry
  otherwise.
\<close>

lemma getCachedData_try_entry:
  assumes "\<not> denied (localStorage w)"
    and "items (localStorage w) (getCacheKey username year) = Some cached"
    and "cached \<noteq> ''''"
    and "JSON_parse P cached = Inr entry"
  shows "getCachedData_try P username year w =
     (let w1 = w\<lparr>trace := trace w @ [GetItem (getCacheKey username year)]\<rparr>
      in if clock w - timestamp entry < CACHE_EXPIRY then (Inr (Some (data entry)), w1)
         else (Inr None,
               w1\<lparr>trace := trace w1 @ [RemoveItem (getCacheKey username year)],
                  localStorage := (localStorage w)
                    \<lparr>items := (items (localStorage w))(getCacheKey username year := None)\<rparr>\<rparr>))"
  using assms
  by (simp add: getCachedData_try_def getItem_def removeItem_def Let_def)

text \<open>
  Claim C2, as amended. For every user name and year the cache key is exactly the
  string \<^verbatim>\<open>github_contributions_<username>_<year>\<close>, and every operation on the
  cache uses that key: the read asks the storage for it (and removes it when the
  entry is stale), the write stores under it.
\<close>

theorem getCacheKey_every_operation:
  "getCacheKey username year = ''github_contributions_'' @ username @ ''_'' @ Number_toString year
   \<and> (trace (snd (getCachedData P username year w))
         = trace w @ [GetItem (getCacheKey username year)]
       \<or> trace (snd (getCachedData P username year w))
         = trace w @ [GetItem (getCacheKey username year), RemoveItem (getCacheKey username year)])
   \<and> trace (snd (setCachedData P username year d w))
         = trace w @ [SetItem (getCacheKey username year)
                        (JSON_stringify P \<lparr>data = d, timestamp = clock w\<rparr>)]"
proof -
  have "trace (snd (setCachedData P username year d w))
         = trace w @ [SetItem (getCacheKey username year)
                        (JSON_stringify P \<lparr>data = d, timestamp = clock w\<rparr>)]"
    by (simp add: setCachedData_def setItem_def Let_def)
  then show ?thesis
    using getCachedData_try_trace [of P username year w]
    by (simp add: snd_getCachedData getCacheKey_def)
qed

text \<open>
  The claim as stated gives the key as \<^verbatim>\<open>contributions_<entity>_<year>\<close>; the
  key of the code starts with \<^verbatim>\<open>github_\<close>.
\<close>

theorem getCacheKey_counterexample:
  "getCacheKey ''alice'' 2024 = ''github_contributions_alice_2024''
   \<and> getCacheKey ''alice'' 2024 \<noteq> ''contributions_alice_2024''"
  by code_simp

text \<open>
  Claim C3. \<open>CACHE_EXPIRY\<close> is 24 hours in milliseconds. For a stored entry that the
  storage hands out and that parses to \<^verbatim>\<open>{data, timestamp}\<close>: a read at a time
  \<open>now\<close> with \<open>now - timestamp \<ge> CACHE_EXPIRY\<close> returns \<^verbatim>\<open>null\<close> and leaves the
  storage without the entry; a read with \<open>now - timestamp < CACHE_EXPIRY\<close> returns the
  stored data and leaves the storage as it was.
\<close>

theorem getCachedData_expiry:
  assumes "\<not> denied (localStorage w)"
    and "items (localStorage w) (getCacheKey username year) = Some cached"
    and "cached \<noteq> ''''"
    and "JSON_parse P cached = Inr entry"
  shows "CACHE_EXPIRY = 86400000
    \<and> (CACHE_EXPIRY \<le> clock w - timestamp entry \<longrightarrow>
          fst (getCachedData P username year w) = Inr None
          \<and> localStorage (snd (getCachedData P username year w))
              = (localStorage w)
                  \<lparr>items := (items (localStorage w))(getCacheKey username year := None)\<rparr>)
    \<and> (clock w - timestamp entry < CACHE_EXPIRY \<longrightarrow>
          fst (getCachedData P username year w) = Inr (Some (data entry))
          \<and> localStorage (snd (getCachedData P username year w)) = localStorage w)"
proof -
  have "CACHE_EXPIRY = 86400000"
    by (simp add: CACHE_EXPIRY_def)
  then show ?thesis
    by (simp add: getCachedData_def getCachedData_try_entry [OF assms] Let_def)
qed

theorem getCachedData_expiry_witness:
  "fst (getCachedData (table_platform \<lparr>data = alice_2024, timestamp = 1000\<rparr>) ''alice'' 2024
         (browser [''github_contributions_alice_2024'' \<mapsto> ''entry''] 86401000)) = Inr None
   \<and> items (localStorage (snd
         (getCachedData (table_platform \<lparr>data = alice_2024, timestamp = 1000\<rparr>) ''alice'' 2024
           (browser [''github_contributions_alice_2024'' \<mapsto> ''entry''] 86401000))))
         ''github_contributions_alice_2024'' = None
   \<and> fst (getCachedData (table_platform \<lparr>data = alice_2024, timestamp = 1000\<rparr>) ''alice'' 2024
         (browser [''github_contributions_alice_2024'' \<mapsto> ''entry''] 86400999))
       = Inr (Some alice_2024)"
proof -
  let ?P = "table_platform \<lparr>data = alice_2024, timestamp = 1000\<rparr>"
  let ?m = "[''github_contributions_alice_2024'' \<mapsto> ''entry'']"
  have allowed: "\<not> denied (localStorage (browser ?m t))" for t
    by (simp add: browser_def)
  have stored: "items (localStorage (browser ?m t)) (getCacheKey ''alice'' 2024) = Some ''entry''"
    for t
    by (simp add: browser_def key_alice)
  have nonempty: "''entry'' \<noteq> ''''"
    by simp
  have parsed: "JSON_parse ?P ''entry'' = Inr \<lparr>data = alice_2024, timestamp = 1000\<rparr>"
    by (rule table_parse)
  from getCachedData_expiry [OF allowed stored nonempty parsed, of 86401000]
    getCachedData_expiry [OF allowed stored nonempty parsed, of 86400999]
  show ?thesis
    by (simp add: browser_def key_alice)
qed

text \<open>
  Claim C8. \<^verbatim>\<open>getCachedData\<close> never throws: it always returns a value. It returns
  \<^verbatim>\<open>null\<close> when the storage refuses the access, when no entry is stored under the
  key, when the stored text is empty, and when the stored text does not parse.
\<close>

theorem getCachedData_fails_soft:
  "(\<exists>r. fst (getCachedData P username year w) = Inr r)
   \<and> (denied (localStorage w) \<longrightarrow> fst (getCachedData P username year w) = Inr None)
   \<and> (items (localStorage w) (getCacheKey username year) = None \<longrightarrow>
        fst (getCachedData P username year w) = Inr None)
   \<and> (items (localStorage w) (getCacheKey username year) = Some '''' \<longrightarrow>
        fst (getCachedData P username year w) = Inr None)
   \<and> (\<forall>cached e. items (localStorage w) (getCacheKey username year) = Some cached
          \<and> JSON_parse P cached = Inl e \<longrightarrow>
        fst (getCachedData P username year w) = Inr None)"
proof -
  have total: "\<exists>r. fst (getCachedData P username year w) = Inr r"
    by (simp add: getCachedData_def split: prod.split sum.split option.split)
  have "fst (getCachedData P username year w) = Inr None"
    if "denied (localStorage w)"
    using that by (simp add: getCachedData_def getCachedData_try_def getItem_def Let_def)
  moreover have "fst (getCachedData P username year w) = Inr None"
    if "items (localStorage w) (getCacheKey username year) = None"
    using that by (simp add: getCachedData_def getCachedData_try_def getItem_def Let_def)
  moreover have "fst (getCachedData P username year w) = Inr None"
    if "items (localStorage w) (getCacheKey username year) = Some ''''"
    using that by (simp add: getCachedData_def getCachedData_try_def getItem_def Let_def)
  moreover have "fst (getCachedData P username year w) = Inr None"
    if "items (localStorage w) (getCacheKey username year) = Some cached"
      and "JSON_parse P cached = Inl e" for cached e
    using that by (simp add: getCachedData_def getCachedData_try_def getItem_def Let_def)
  ultimately show ?thesis
    using total by blast
qed

theorem getCachedData_fails_soft_witness:
  "fst (getCachedData (table_platform \<lparr>data = alice_2024, timestamp = 1000\<rparr>) ''alice'' 2024
         ((browser [''github_contributions_alice_2024'' \<mapsto> ''entry''] 2000)
            \<lparr>localStorage := \<lparr>items = [''github_contributions_alice_2024'' \<mapsto> ''entry''],
                                 denied = True, full = False\<rparr>\<rparr>)) = Inr None
   \<and> fst (getCachedData (table_platform \<lparr>data = alice_2024, timestamp = 1000\<rparr>) ''alice'' 2024
         (browser Map.empty 2000)) = Inr None
   \<and> fst (getCachedData (table_platform \<lparr>data = alice_2024, timestamp = 1000\<rparr>) ''alice'' 2024
         (browser [''github_contributions_alice_2024'' \<mapsto> ''{data:''] 2000)) = Inr None"
proof -
  let ?P = "table_platform \<lparr>data = alice_2024, timestamp = 1000\<rparr>"
  let ?m = "[''github_contributions_alice_2024'' \<mapsto> ''entry'']"
  let ?denied = "(browser ?m 2000)\<lparr>localStorage := \<lparr>items = ?m, denied = True, full = False\<rparr>\<rparr>"
  let ?garbled = "browser [''github_contributions_alice_2024'' \<mapsto> ''{data:''] 2000"
  have "denied (localStorage ?denied)"
    by simp
  moreover have "items (localStorage (browser Map.empty 2000)) (getCacheKey ''alice'' 2024) = None"
    by (simp add: browser_def)
  moreover have "items (localStorage ?garbled) (getCacheKey ''alice'' 2024) = Some ''{data:''
      \<and> JSON_parse ?P ''{data:'' = Inl SyntaxError"
    by (simp add: browser_def key_alice table_platform_def)
  ultimately show ?thesis
    using getCachedData_fails_soft [of ?P "''alice''" 2024 ?denied]
      getCachedData_fails_soft [of ?P "''alice''" 2024 "browser Map.empty 2000"]
      getCachedData_fails_soft [of ?P "''alice''" 2024 ?garbled]
    by blast
qed

text \<open>
  The write is best effort: \<^verbatim>\<open>setCachedData\<close> never throws, and when the storage
  refuses the write it leaves the stored items as they were.
\<close>

lemma setCachedData_best_effort:
  "fst (setCachedData P username year d w) = Inr ()"
  "denied (localStorage w) \<or> full (localStorage w) \<Longrightarrow>
     localStorage (snd (setCachedData P username year d w)) = localStorage w"
  by (auto simp: setCachedData_def setItem_def Let_def)

text \<open>
  Claim C9. On a storage that takes the write, and with JSON functions that give the
  written entry back from its text, \<^verbatim>\<open>setCachedData\<close> followed by
  \<^verbatim>\<open>getCachedData\<close> for the same user name and year, at a time \<open>t\<close> less than
  \<open>CACHE_EXPIRY\<close> after the write and with nothing but the clock changed in
  between, returns the data that was written.
\<close>

theorem setCachedData_getCachedData:
  assumes "\<not> denied (localStorage w)" and "\<not> full (localStorage w)"
    and "JSON_stringify P \<lparr>data = v, timestamp = clock w\<rparr> \<noteq> ''''"
    and "JSON_parse P (JSON_stringify P \<lparr>data = v, timestamp = clock w\<rparr>)
          = Inr \<lparr>data = v, timestamp = clock w\<rparr>"
    and "t - clock w < CACHE_EXPIRY"
  shows "fst (getCachedData P username year
               ((snd (setCachedData P username year v w))\<lparr>clock := t\<rparr>)) = Inr (Some v)"
proof -
  let ?text = "JSON_stringify P \<lparr>data = v, timestamp = clock w\<rparr>"
  let ?w1 = "(snd (setCachedData P username year v w))\<lparr>clock := t\<rparr>"
  have stored: "items (localStorage ?w1) (getCacheKey username year) = Some ?text"
    and open_store: "\<not> denied (localStorage ?w1)"
    using assms(1,2) by (simp_all add: setCachedData_def setItem_def Let_def)
  have "getCachedData_try P username year ?w1 =
      (Inr (Some v), ?w1\<lparr>trace := trace ?w1 @ [GetItem (getCacheKey username year)]\<rparr>)"
    using assms(5)
    by (simp add: getCachedData_try_entry [OF open_store stored assms(3,4)] Let_def)
  then show ?thesis
    by (simp add: getCachedData_def)
qed

theorem setCachedData_getCachedData_witness:
  "fst (getCachedData (table_platform \<lparr>data = alice_2024, timestamp = 1000\<rparr>) ''alice'' 2024
         ((snd (setCachedData (table_platform \<lparr>data = alice_2024, timestamp = 1000\<rparr>)
                  ''alice'' 2024 alice_2024 (browser Map.empty 1000)))\<lparr>clock := 5000\<rparr>))
     = Inr (Some alice_2024)"
proof -
  let ?P = "table_platform \<lparr>data = alice_2024, timestamp = 1000\<rparr>"
  let ?w = "browser Map.empty 1000"
  have "\<not> denied (localStorage ?w)" and "\<not> full (localStorage ?w)"
    by (simp_all add: browser_def)
  moreover have "JSON_stringify ?P \<lparr>data = alice_2024, timestamp = clock ?w\<rparr> \<noteq> ''''"
    by (simp add: table_parse)
  moreover have "JSON_parse ?P (JSON_stringify ?P \<lparr>data = alice_2024, timestamp = clock ?w\<rparr>)
      = Inr \<lparr>data = alice_2024, timestamp = clock ?w\<rparr>"
    by (simp add: table_parse browser_def)
  moreover have "5000 - clock ?w < CACHE_EXPIRY"
    by (simp add: browser_def CACHE_EXPIRY_def)
  ultimately show ?thesis
    by (rule setCachedData_getCachedData)
qed


subsection \<open>Properties of loading\<close>

text \<open>
  Claim C4. With an entry for the user name and year that is stored, parses and is
  younger than \<open>CACHE_EXPIRY\<close>, \<^verbatim>\<open>loadContributions\<close> shows the contributions of
  the cached data and its total for the year (0 when the year is missing), without
  an error and no longer loading; the only call that leaves the component is the one
  \<^verbatim>\<open>getItem\<close> (no request, no write), and the storage is unchanged.
\<close>

theorem loadContributions_cache_hit:
  assumes "\<not> denied (localStorage w)"
    and "items (localStorage w) (getCacheKey username year) = Some cached"
    and "cached \<noteq> ''''"
    and "JSON_parse P cached = Inr entry"
    and "clock w - timestamp entry < CACHE_EXPIRY"
  shows "s_contributions (fst (loadContributions P username year (c, w)))
           = contributions (data entry)
    \<and> s_totalContributions (fst (loadContributions P username year (c, w)))
           = (case total_by_year (data entry) (Number_toString year) of
                None \<Rightarrow> 0 | Some n \<Rightarrow> n)
    \<and> s_error (fst (loadContributions P username year (c, w))) = None
    \<and> \<not> s_loading (fst (loadContributions P username year (c, w)))
    \<and> trace (snd (loadContributions P username year (c, w)))
           = trace w @ [GetItem (getCacheKey username year)]
    \<and> localStorage (snd (loadContributions P username year (c, w))) = localStorage w"
proof -
  have "getCachedData P username year w =
      (Inr (Some (data entry)), w\<lparr>trace := trace w @ [GetItem (getCacheKey username year)]\<rparr>)"
    using assms(5)
    by (simp add: getCachedData_def getCachedData_try_entry [OF assms(1-4)] Let_def)
  then show ?thesis
    by (simp add: loadContributions_def show_data_def total_or_0_def Let_def
        split: option.split)
qed

theorem loadContributions_cache_hit_witness:
  "s_contributions (fst (loadContributions
       (table_platform \<lparr>data = alice_2024, timestamp = 1700000000000\<rparr>) ''alice'' 2024
       (initial, browser [''github_contributions_alice_2024'' \<mapsto> ''entry''] 1700003600000)))
     = [\<lparr>date = ''2024-01-01'', count = 3, level = 1\<rparr>]
   \<and> s_totalContributions (fst (loadContributions
       (table_platform \<lparr>data = alice_2024, timestamp = 1700000000000\<rparr>) ''alice'' 2024
       (initial, browser [''github_contributions_alice_2024'' \<mapsto> ''entry''] 1700003600000)))
     = 3
   \<and> trace (snd (loadContributions
       (table_platform \<lparr>data = alice_2024, timestamp = 1700000000000\<rparr>) ''alice'' 2024
       (initial, browser [''github_contributions_alice_2024'' \<mapsto> ''entry''] 1700003600000)))
     = [GetItem ''github_contributions_alice_2024'']
   \<and> items (localStorage (snd (loadContributions
       (table_platform \<lparr>data = alice_2024, timestamp = 1700000000000\<rparr>) ''alice'' 2024
       (initial, browser [''github_contributions_alice_2024'' \<mapsto> ''entry''] 1700003600000))))
     = [''github_contributions_alice_2024'' \<mapsto> ''entry'']"
proof -
  let ?entry = "\<lparr>data = alice_2024, timestamp = 1700000000000\<rparr>"
  let ?P = "table_platform ?entry"
  let ?w = "browser [''github_contributions_alice_2024'' \<mapsto> ''entry''] 1700003600000"
  have allowed: "\<not> denied (localStorage ?w)"
    by (simp add: browser_def)
  have stored: "items (localStorage ?w) (getCacheKey ''alice'' 2024) = Some ''entry''"
    by (simp add: browser_def key_alice)
  have nonempty: "''entry'' \<noteq> ''''"
    by simp
  have parsed: "JSON_parse ?P ''entry'' = Inr ?entry"
    by (rule table_parse)
  have fresh: "clock ?w - timestamp ?entry < CACHE_EXPIRY"
    by (simp add: browser_def CACHE_EXPIRY_def)
  have year: "Number_toString 2024 = ''2024''"
    by code_simp
  from loadContributions_cache_hit [OF allowed stored nonempty parsed fresh, of initial]
  show ?thesis
    by (simp add: key_alice year alice_2024_def browser_def)
qed

text \<open>
  Claim C5. When the request is answered with a status outside 200 to 299,
  \<^verbatim>\<open>fetchContributions\<close> throws an \<^verbatim>\<open>Error\<close> whose message carries the status,
  and the storage is as before: the only call is the request. After a cache miss,
  \<^verbatim>\<open>loadContributions\<close> then ends in the failure state (the fixed message, no
  contributions, total 0, not loading), with the storage as the read left it.
\<close>

theorem fetchContributions_http_error:
  assumes "fst (fetch P (request_url username year)) = Inr r" and "\<not> ok r"
  shows "fst (fetchContributions P username year w)
           = Inl (Error (''HTTP error! status: '' @ Number_toString (status r)))
    \<and> localStorage (snd (fetchContributions P username year w)) = localStorage w
    \<and> trace (snd (fetchContributions P username year w))
           = trace w @ [Fetch (request_url username year)]
    \<and> (fst (getCachedData P username year w) = Inr None \<longrightarrow>
          s_error (fst (loadContributions P username year (c, w))) = Some LOAD_FAILED
          \<and> s_contributions (fst (loadContributions P username year (c, w))) = []
          \<and> s_totalContributions (fst (loadContributions P username year (c, w))) = 0
          \<and> \<not> s_loading (fst (loadContributions P username year (c, w)))
          \<and> localStorage (snd (loadContributions P username year (c, w)))
               = localStorage (snd (getCachedData P username year w))
          \<and> trace (snd (loadContributions P username year (c, w)))
               = trace (snd (getCachedData P username year w))
                   @ [Fetch (request_url username year)])"
proof -
  have fetch_fails: "fetchContributions P username year w' =
      (Inl (Error (''HTTP error! status: '' @ Number_toString (status r))),
       w'\<lparr>trace := trace w' @ [Fetch (request_url username year)],
          clock := clock w' + snd (fetch P (request_url username year))\<rparr>)" for w'
    using assms by (simp add: fetchContributions_def await_fetch_def)
  have "s_error (fst (loadContributions P username year (c, w))) = Some LOAD_FAILED
      \<and> s_contributions (fst (loadContributions P username year (c, w))) = []
      \<and> s_totalContributions (fst (loadContributions P username year (c, w))) = 0
      \<and> \<not> s_loading (fst (loadContributions P username year (c, w)))
      \<and> localStorage (snd (loadContributions P username year (c, w)))
           = localStorage (snd (getCachedData P username year w))
      \<and> trace (snd (loadContributions P username year (c, w)))
           = trace (snd (getCachedData P username year w))
               @ [Fetch (request_url username year)]"
    if miss: "fst (getCachedData P username year w) = Inr None"
  proof -
    obtain w1 where "getCachedData P username year w = (Inr None, w1)"
      using miss by (cases "getCachedData P username year w") simp
    then show ?thesis
      by (simp add: loadContributions_def fetch_fails show_failure_def Let_def)
  qed
  then show ?thesis
    by (simp add: fetch_fails)
qed

theorem fetchContributions_http_error_witness:
  "fst (fetchContributions (table_platform \<lparr>data = alice_2024, timestamp = 1000\<rparr>) ''alice'' 2024
         (browser Map.empty 2000))
     = Inl (Error ''HTTP error! status: 404'')
   \<and> items (localStorage (snd
         (fetchContributions (table_platform \<lparr>data = alice_2024, timestamp = 1000\<rparr>) ''alice'' 2024
           (browser Map.empty 2000)))) = Map.empty
   \<and> s_error (fst (loadContributions (table_platform \<lparr>data = alice_2024, timestamp = 1000\<rparr>)
         ''alice'' 2024 (initial, browser Map.empty 2000))) = Some LOAD_FAILED"
proof -
  let ?P = "table_platform \<lparr>data = alice_2024, timestamp = 1000\<rparr>"
  let ?w = "browser Map.empty 2000"
  let ?r = "\<lparr>status = 404, body = ''Not Found''\<rparr>"
  have reply: "fst (fetch ?P (request_url ''alice'' 2024)) = Inr ?r"
    by (simp add: table_platform_def)
  have bad: "\<not> ok ?r"
    by (simp add: ok_def)
  have miss: "fst (getCachedData ?P ''alice'' 2024 ?w) = Inr None"
    by (simp add: getCachedData_def getCachedData_try_def getItem_def browser_def Let_def)
  have status: "Number_toString 404 = ''404''"
    by code_simp
  from fetchContributions_http_error [OF reply bad, of ?w initial] miss
  show ?thesis
    by (simp add: status browser_def)
qed

text \<open>
  Claim C10. With the empty user name the effect does nothing: state and world are
  as before. From the initial state, after any number of runs of the effect with the
  empty user name (the year may change), the component is in its initial state, no
  call has left it (no cache read, no request), and it renders the loading notice.
\<close>

theorem useEffect_empty_username:
  "useEffect P '''' year s = s
   \<and> fold (useEffect P '''') years (initial, w) = (initial, w)
   \<and> trace (snd (fold (useEffect P '''') years (initial, w))) = trace w
   \<and> render (fst (fold (useEffect P '''') years (initial, w))) year = Loading"
proof -
  have "fold (useEffect P '''') years s = s" for s
    by (induction years) (simp_all add: useEffect_def)
  then show ?thesis
    by (simp add: useEffect_def render_def initial_def)
qed

end
